theory Spec2Isabelle
  imports Main
begin

section \<open>Data model of wscat.py\<close>

text \<open>
  \<^verbatim>\<open>Message\<close> is the dataclass of lines 13-18; its \<^verbatim>\<open>role\<close> is the literal type
  \<^verbatim>\<open>"user" | "server"\<close>. (\<^verbatim>\<open>text\<close> is a keyword of the theory language, so the two fields
  carry the prefix \<^verbatim>\<open>msg_\<close>.)
\<close>

datatype Role = User | Server

record Message =
  msg_role :: Role
  msg_text :: string

text \<open>
  \<^verbatim>\<open>State\<close> (lines 21-28): the per-session fields. \<^verbatim>\<open>_websocket_id\<close> loses its leading
  underscore.
\<close>

record State =
  server_url :: string
  message_buffer :: string
  messages :: "Message list"
  connected :: bool
  websocket_id :: string

text \<open>The field defaults of lines 24-28.\<close>

definition State_default :: State where
  "State_default =
     \<lparr>server_url = ''wss://websocket-echo.com'', message_buffer = '''', messages = [],
      connected = False, websocket_id = ''''\<rparr>"

text \<open>
  What \<^verbatim>\<open>async for message in ws\<close> hands to the loop body: a \<^verbatim>\<open>str\<close> (text frame) or a
  \<^verbatim>\<open>bytes\<close> (binary frame). Line 50 tests \<^verbatim>\<open>isinstance(message, str)\<close>.
\<close>

datatype frame = Str string | Bytes "nat list"

text \<open>
  The exceptions the handlers can leave with: a failed \<^verbatim>\<open>connect(url)\<close>, a connection
  that is closed (raised by the receive loop on an abnormal closure and by \<^verbatim>\<open>send\<close> on a
  closed connection), and the \<^verbatim>\<open>KeyError\<close> of \<^verbatim>\<open>del\<close> on a missing key. The source has no
  \<^verbatim>\<open>try\<close> anywhere, so every one of them leaves the handler.
\<close>

datatype error = ConnectError | ConnectionClosed | KeyError

text \<open>
  The websockets library is not part of the repository; it is a parameter. \<^typ>\<open>'c\<close> is the
  type of \<^verbatim>\<open>ClientConnection\<close> objects.
  \<^item> \<open>open_ws url\<close>: entering \<^verbatim>\<open>async with connect(url) as ws\<close> raises or binds \<^verbatim>\<open>ws\<close>;
  \<^item> \<open>ws_id ws\<close>: \<^verbatim>\<open>str(ws.id)\<close>;
  \<^item> \<open>inbound ws\<close>: the messages the iteration over \<^verbatim>\<open>ws\<close> yields, in order, up to the
    closure of the connection;
  \<^item> \<open>closes_ok ws\<close>: the iteration ends normally (closure with a normal close code) rather
    than by raising;
  \<^item> \<open>send_ok ws message\<close>: \<^verbatim>\<open>await ws.send(message)\<close> returns rather than raising.
\<close>

record 'c Network =
  open_ws :: "string \<Rightarrow> error + 'c"
  ws_id :: "'c \<Rightarrow> string"
  inbound :: "'c \<Rightarrow> frame list"
  closes_ok :: "'c \<Rightarrow> bool"
  send_ok :: "'c \<Rightarrow> string \<Rightarrow> bool"

text \<open>
  What a handler does beyond changing the state, in the order it does it:
  \<^item> \<open>Release s\<close>: an \<^verbatim>\<open>async with self\<close> block is left with the session state \<open>s\<close>;
  \<^item> \<open>Yield s\<close>: a bare \<^verbatim>\<open>yield\<close> with the session state \<open>s\<close>;
  \<^item> \<open>ScrollTo elem\<close>: \<^verbatim>\<open>yield rx.scroll_to(elem)\<close>;
  \<^item> \<open>NetConnect url\<close>: \<^verbatim>\<open>connect(url)\<close> is attempted;
  \<^item> \<open>NetSend ws message\<close>: \<^verbatim>\<open>ws.send(message)\<close> is attempted.
\<close>

datatype 'c effect =
    Release State
  | Yield State
  | ScrollTo string
  | NetConnect string
  | NetSend 'c string

text \<open>
  A run of a handler: the session state and the module-level dict \<^verbatim>\<open>_WEBSOCKETS\<close> (line 10)
  as it leaves them, the effects so far, and the exception it leaves with, if any. The
  mutations made before a \<^verbatim>\<open>raise\<close> stay, so a run carries all four in every case.
\<close>

record 'c Run =
  state :: State
  websockets :: "string \<rightharpoonup> 'c"
  effects :: "'c effect list"
  raised :: "error option"

section \<open>The event handlers\<close>

text \<open>\<^verbatim>\<open>on_load\<close> (lines 30-33).\<close>

definition on_load :: "(string \<rightharpoonup> 'c) \<Rightarrow> State \<Rightarrow> State" where
  "on_load reg s =
     s\<lparr>connected := (websocket_id s \<noteq> '''' \<and> reg (websocket_id s) \<noteq> None)\<rparr>"

text \<open>\<^verbatim>\<open>update_message_buffer\<close> and \<^verbatim>\<open>update_server_url\<close> (lines 75-83).\<close>

definition update_message_buffer :: "string \<Rightarrow> State \<Rightarrow> State" where
  "update_message_buffer v s = s\<lparr>message_buffer := v\<rparr>"

definition update_server_url :: "string \<Rightarrow> State \<Rightarrow> State" where
  "update_server_url v s = s\<lparr>server_url := v\<rparr>"

text \<open>
  \<^verbatim>\<open>connect\<close>, lines 38-43: the first \<^verbatim>\<open>async with self\<close> block, then the attempt to open
  the connection to \<^verbatim>\<open>self.server_url\<close>. The second component is the bound \<^verbatim>\<open>ws\<close>, or the
  exception.
\<close>

definition connect_begin ::
  "'c Network \<Rightarrow> (string \<rightharpoonup> 'c) \<Rightarrow> State \<Rightarrow> 'c Run \<times> (error + 'c)" where
  "connect_begin net reg s =
     (let s1 = s\<lparr>messages := [], connected := False, websocket_id := ''''\<rparr>
      in (\<lparr>state = s1, websockets = reg,
           effects = [Release s1, NetConnect (server_url s1)], raised = None\<rparr>,
          open_ws net (server_url s1)))"

text \<open>
  Lines 44-48: the handle is stored under its id by a plain item assignment, then the
  second \<^verbatim>\<open>async with self\<close> block marks the session connected.
\<close>

definition connect_register :: "'c Network \<Rightarrow> 'c \<Rightarrow> 'c Run \<Rightarrow> 'c Run" where
  "connect_register net ws r =
     (let wid = ws_id net ws;
          s2 = (state r)\<lparr>connected := True, websocket_id := wid\<rparr>
      in r\<lparr>state := s2, websockets := (websockets r)(wid \<mapsto> ws),
            effects := effects r @ [Release s2]\<rparr>)"

text \<open>The body of the receive loop, lines 50-56.\<close>

definition on_message :: "frame \<Rightarrow> 'c Run \<Rightarrow> 'c Run" where
  "on_message message r =
     (case message of
        Str t \<Rightarrow>
          (let s' = (state r)\<lparr>messages :=
                       messages (state r) @ [\<lparr>msg_role = Server, msg_text = t\<rparr>]\<rparr>
           in r\<lparr>state := s',
                 effects := effects r @ [Yield s', ScrollTo ''messages-end'', Release s']\<rparr>)
      | Bytes b \<Rightarrow> r)"

text \<open>The loop of line 49 over the messages the connection yields before it closes.\<close>

fun receive_loop :: "frame list \<Rightarrow> 'c Run \<Rightarrow> 'c Run" where
  "receive_loop [] r = r"
| "receive_loop (message # rest) r = receive_loop rest (on_message message r)"

text \<open>Line 57: \<^verbatim>\<open>del _WEBSOCKETS[websocket_id]\<close>, a \<^verbatim>\<open>KeyError\<close> when the key is missing.\<close>

definition del_websocket :: "string \<Rightarrow> 'c Run \<Rightarrow> 'c Run" where
  "del_websocket wid r =
     (case websockets r wid of
        None \<Rightarrow> r\<lparr>raised := Some KeyError\<rparr>
      | Some _ \<Rightarrow> r\<lparr>websockets := (websockets r)(wid := None)\<rparr>)"

text \<open>
  \<^verbatim>\<open>connect\<close> (lines 35-57) as a whole. When the iteration raises, line 57 is not reached.
  Nothing follows line 57. (Leaving \<^verbatim>\<open>async with connect(...)\<close> closes the socket, which
  changes neither the session state nor \<^verbatim>\<open>_WEBSOCKETS\<close>.)
\<close>

definition connect :: "'c Network \<Rightarrow> (string \<rightharpoonup> 'c) \<Rightarrow> State \<Rightarrow> 'c Run" where
  "connect net reg s =
     (case connect_begin net reg s of
        (r, Inl e) \<Rightarrow> r\<lparr>raised := Some e\<rparr>
      | (r, Inr ws) \<Rightarrow>
          (let r' = receive_loop (inbound net ws) (connect_register net ws r)
           in if closes_ok net ws then del_websocket (ws_id net ws) r'
              else r'\<lparr>raised := Some ConnectionClosed\<rparr>))"

text \<open>
  \<^verbatim>\<open>send_message\<close> (lines 59-73). The whole body is one \<^verbatim>\<open>async with self\<close> block, left by
  the \<^verbatim>\<open>return\<close> of line 72, by the end of line 73, or by the exception of \<^verbatim>\<open>send\<close>.
\<close>

definition send_message :: "'c Network \<Rightarrow> (string \<rightharpoonup> 'c) \<Rightarrow> State \<Rightarrow> 'c Run" where
  "send_message net reg s =
     (let message = message_buffer s;
          s1 = s\<lparr>message_buffer := '''',
                 messages := messages s @ [\<lparr>msg_role = User, msg_text = message\<rparr>]\<rparr>;
          e1 = [Yield s1, ScrollTo ''messages-end'']
      in case reg (websocket_id s1) of
           None \<Rightarrow>
             \<lparr>state = s1, websockets = reg, effects = e1 @ [Release s1], raised = None\<rparr>
         | Some websocket_connection \<Rightarrow>
             \<lparr>state = s1, websockets = reg,
              effects = e1 @ [NetSend websocket_connection message, Release s1],
              raised = (if send_ok net websocket_connection message then None
                        else Some ConnectionClosed)\<rparr>)"

section \<open>Concrete networks\<close>

text \<open>
  Connections are numbered. \<open>echo_net\<close> accepts the default URL only, with connection 1
  under the id \<open>ws-1\<close>; the server sends a binary frame and two text frames, then closes
  normally.
\<close>

definition echo_net :: "nat Network" where
  "echo_net =
     \<lparr>open_ws = (\<lambda>url. if url = ''wss://websocket-echo.com'' then Inr 1 else Inl ConnectError),
      ws_id = (\<lambda>c. if c = 1 then ''ws-1'' else ''ws-2''),
      inbound = (\<lambda>c. [Str ''hello'', Bytes [0, 255], Str ''hello'']),
      closes_ok = (\<lambda>c. True),
      send_ok = (\<lambda>c m. True)\<rparr>"

text \<open>\<open>quiet_net\<close>: the server accepts and closes normally without sending anything.\<close>

definition quiet_net :: "nat Network" where
  "quiet_net = echo_net\<lparr>inbound := (\<lambda>c. [])\<rparr>"

text \<open>\<open>hi_net\<close>: the server sends the text frame \<open>hi\<close> and closes normally.\<close>

definition hi_net :: "nat Network" where
  "hi_net = echo_net\<lparr>inbound := (\<lambda>c. [Str ''hi''])\<rparr>"

text \<open>\<open>dead_net\<close>: every connection has been closed, so \<^verbatim>\<open>send\<close> raises.\<close>

definition dead_net :: "nat Network" where
  "dead_net = echo_net\<lparr>send_ok := (\<lambda>c m. False)\<rparr>"

text \<open>\<open>twin_net\<close>: the connection opened is number 2, and it reports the id \<open>ws-1\<close> too.\<close>

definition twin_net :: "nat Network" where
  "twin_net = echo_net\<lparr>open_ws := (\<lambda>url. Inr 2), ws_id := (\<lambda>c. ''ws-1'')\<rparr>"

text \<open>A session with a draft, and one that holds messages of an earlier connection.\<close>

definition drafting :: State where
  "drafting = State_default\<lparr>message_buffer := ''hello''\<rparr>"

definition used :: State where
  "used = State_default
     \<lparr>messages := [\<lparr>msg_role = User, msg_text = ''a''\<rparr>, \<lparr>msg_role = Server, msg_text = ''a''\<rparr>],
      connected := True, websocket_id := ''ws-0''\<rparr>"

section \<open>The receive loop\<close>

lemma receive_loop_append:
  "receive_loop (fs @ gs) r = receive_loop gs (receive_loop fs r)"
  by (induction fs arbitrary: r) simp_all

lemma on_message_websockets: "websockets (on_message f r) = websockets r"
  by (simp add: on_message_def Let_def split: frame.splits)

lemma on_message_raised: "raised (on_message f r) = raised r"
  by (simp add: on_message_def Let_def split: frame.splits)

lemma receive_loop_websockets: "websockets (receive_loop fs r) = websockets r"
  by (induction fs arbitrary: r) (simp_all add: on_message_websockets)

lemma receive_loop_raised: "raised (receive_loop fs r) = raised r"
  by (induction fs arbitrary: r) (simp_all add: on_message_raised)

lemma on_message_flags:
  "connected (state (on_message f r)) = connected (state r)
   \<and> websocket_id (state (on_message f r)) = websocket_id (state r)
   \<and> server_url (state (on_message f r)) = server_url (state r)
   \<and> message_buffer (state (on_message f r)) = message_buffer (state r)"
  by (simp add: on_message_def Let_def split: frame.splits)

lemma receive_loop_flags:
  "connected (state (receive_loop fs r)) = connected (state r)
   \<and> websocket_id (state (receive_loop fs r)) = websocket_id (state r)
   \<and> server_url (state (receive_loop fs r)) = server_url (state r)
   \<and> message_buffer (state (receive_loop fs r)) = message_buffer (state r)"
  by (induction fs arbitrary: r) (simp_all add: on_message_flags)

lemma on_message_messages:
  "messages (state (on_message f r)) =
     messages (state r) @ [\<lparr>msg_role = Server, msg_text = t\<rparr>. Str t \<leftarrow> [f]]"
  by (simp add: on_message_def Let_def split: frame.splits)

lemma receive_loop_messages:
  "messages (state (receive_loop fs r)) =
     messages (state r) @ [\<lparr>msg_role = Server, msg_text = t\<rparr>. Str t \<leftarrow> fs]"
proof (induction fs arbitrary: r)
  case Nil
  show ?case by simp
next
  case (Cons f fs)
  have "messages (state (receive_loop (f # fs) r)) =
          messages (state (on_message f r)) @ [\<lparr>msg_role = Server, msg_text = t\<rparr>. Str t \<leftarrow> fs]"
    using Cons.IH [of "on_message f r"] by simp
  then show ?case
    by (simp add: on_message_messages split: frame.splits)
qed

lemma server_messages_all_server:
  "filter (\<lambda>m. msg_role m = Server) [\<lparr>msg_role = Server, msg_text = t\<rparr>. Str t \<leftarrow> fs] =
     [\<lparr>msg_role = Server, msg_text = t\<rparr>. Str t \<leftarrow> fs]"
  by (induction fs) (simp_all split: frame.splits)

lemma server_messages_length:
  "length [\<lparr>msg_role = Server, msg_text = t\<rparr>. Str t \<leftarrow> fs] =
     length (filter (\<lambda>f. case f of Str t \<Rightarrow> True | Bytes b \<Rightarrow> False) fs)"
  by (induction fs) (simp_all split: frame.splits)

lemma on_message_effects: "\<exists>es. effects (on_message f r) = effects r @ es"
  by (simp add: on_message_def Let_def split: frame.splits)

lemma receive_loop_effects: "\<exists>es. effects (receive_loop fs r) = effects r @ es"
proof (induction fs arbitrary: r)
  case Nil
  show ?case by simp
next
  case (Cons f fs)
  obtain es where a: "effects (on_message f r) = effects r @ es"
    using on_message_effects by blast
  obtain es' where b: "effects (receive_loop fs (on_message f r)) = effects (on_message f r) @ es'"
    using Cons.IH by blast
  show ?case using a b by simp
qed

lemma del_websocket_effects: "effects (del_websocket wid r) = effects r"
  by (simp add: del_websocket_def split: option.splits)

lemma del_websocket_state: "state (del_websocket wid r) = state r"
  by (simp add: del_websocket_def split: option.splits)

lemma receive_loop_drops_bytes:
  "receive_loop fs r =
     receive_loop (filter (\<lambda>f. case f of Str t \<Rightarrow> True | Bytes b \<Rightarrow> False) fs) r"
  by (induction fs arbitrary: r) (simp_all add: on_message_def split: frame.splits)

section \<open>The shape of a run of connect\<close>

lemma connect_success:
  assumes "open_ws net (server_url s) = Inr ws"
  shows "connect net reg s =
     (let r' = receive_loop (inbound net ws)
                 (connect_register net ws (fst (connect_begin net reg s)))
      in if closes_ok net ws then del_websocket (ws_id net ws) r'
         else r'\<lparr>raised := Some ConnectionClosed\<rparr>)"
  using assms by (simp add: connect_def connect_begin_def Let_def)

lemma connect_register_websockets:
  "websockets (connect_register net ws r) = (websockets r)(ws_id net ws \<mapsto> ws)"
  by (simp add: connect_register_def Let_def)

lemma connect_effects_prefix:
  "\<exists>es. effects (connect net reg s) =
     Release (s\<lparr>messages := [], connected := False, websocket_id := ''''\<rparr>)
       # NetConnect (server_url s) # es"
proof (cases "open_ws net (server_url s)")
  case (Inl e)
  then show ?thesis by (simp add: connect_def connect_begin_def Let_def)
next
  case (Inr ws)
  let ?r = "connect_register net ws (fst (connect_begin net reg s))"
  obtain es where "effects (receive_loop (inbound net ws) ?r) = effects ?r @ es"
    using receive_loop_effects by blast
  with Inr show ?thesis
    by (simp add: connect_def connect_begin_def connect_register_def Let_def
        del_websocket_effects)
qed

section \<open>Connection closure and the connected flag\<close>

text \<open>
  Claim C1: whenever \<^verbatim>\<open>connected\<close> is true, \<^verbatim>\<open>_websocket_id\<close> is a key of \<^verbatim>\<open>_WEBSOCKETS\<close>.
  The source does not keep this. On a server that accepts the connection and closes it
  normally without sending anything, \<^verbatim>\<open>connect\<close> returns without an exception; line 57 has
  removed the key, and nothing has touched the flag or the id: the session is left with
  \<^verbatim>\<open>connected = True\<close> and an id that \<^verbatim>\<open>_WEBSOCKETS\<close> no longer holds.
\<close>

theorem connect_closed_still_connected:
  "connected (state (connect quiet_net Map.empty State_default))
   \<and> websocket_id (state (connect quiet_net Map.empty State_default)) = ''ws-1''
   \<and> websockets (connect quiet_net Map.empty State_default) ''ws-1'' = None
   \<and> raised (connect quiet_net Map.empty State_default) = None"
  by (simp add: connect_def connect_begin_def connect_register_def del_websocket_def
      quiet_net_def echo_net_def State_default_def Let_def)

text \<open>
  Claim C2: when the receive loop ends, \<^verbatim>\<open>connected\<close> becomes false, the id becomes empty,
  the entry leaves \<^verbatim>\<open>_WEBSOCKETS\<close> and \<^verbatim>\<open>messages\<close> is kept. The source does the last two
  only. A session that held an earlier conversation reconnects; the server sends \<open>hi\<close> and
  closes normally. Afterwards the message is there and the registry is empty, but the
  session still has \<^verbatim>\<open>connected = True\<close> and the id \<open>ws-1\<close>.
\<close>

theorem connect_close_keeps_flags:
  "state (connect hi_net Map.empty used) =
     used\<lparr>messages := [\<lparr>msg_role = Server, msg_text = ''hi''\<rparr>],
          connected := True, websocket_id := ''ws-1''\<rparr>
   \<and> websockets (connect hi_net Map.empty used) = Map.empty
   \<and> raised (connect hi_net Map.empty used) = None"
  by (simp add: connect_def connect_begin_def connect_register_def del_websocket_def
      on_message_def hi_net_def echo_net_def used_def State_default_def Let_def)

section \<open>The reset at the start of connect\<close>

text \<open>
  Claim C3: for every session state, also one that holds the messages of an earlier
  connection, and for every registry and network, the first thing a run of \<^verbatim>\<open>connect\<close>
  does is to leave its first \<^verbatim>\<open>async with self\<close> block with \<^verbatim>\<open>messages\<close> empty,
  \<^verbatim>\<open>connected\<close> false and the id empty; the attempt to open the connection is the second
  thing, whatever follows. The state the run holds when the attempt is made is that reset
  state, the attempt goes to the URL of the session, and nothing of the earlier log comes
  back later in the run: at its end the log is empty (failed attempt) or holds the text
  messages of the new connection only.
\<close>

theorem connect_resets_first:
  "take 2 (effects (connect net reg s)) =
     [Release (s\<lparr>messages := [], connected := False, websocket_id := ''''\<rparr>),
      NetConnect (server_url s)]
   \<and> state (fst (connect_begin net reg s)) =
       s\<lparr>messages := [], connected := False, websocket_id := ''''\<rparr>
   \<and> websockets (fst (connect_begin net reg s)) = reg
   \<and> snd (connect_begin net reg s) = open_ws net (server_url s)
   \<and> messages (state (connect net reg s)) =
       (case open_ws net (server_url s) of
          Inl e \<Rightarrow> []
        | Inr ws \<Rightarrow> [\<lparr>msg_role = Server, msg_text = t\<rparr>. Str t \<leftarrow> inbound net ws])"
proof (intro conjI)
  obtain es where "effects (connect net reg s) =
     Release (s\<lparr>messages := [], connected := False, websocket_id := ''''\<rparr>)
       # NetConnect (server_url s) # es"
    using connect_effects_prefix by blast
  then show "take 2 (effects (connect net reg s)) =
     [Release (s\<lparr>messages := [], connected := False, websocket_id := ''''\<rparr>),
      NetConnect (server_url s)]"
    by (simp add: numeral_2_eq_2)
next
  show "state (fst (connect_begin net reg s)) =
       s\<lparr>messages := [], connected := False, websocket_id := ''''\<rparr>"
    by (simp add: connect_begin_def Let_def)
next
  show "websockets (fst (connect_begin net reg s)) = reg"
    by (simp add: connect_begin_def Let_def)
next
  show "snd (connect_begin net reg s) = open_ws net (server_url s)"
    by (simp add: connect_begin_def Let_def)
next
  show "messages (state (connect net reg s)) =
       (case open_ws net (server_url s) of
          Inl e \<Rightarrow> []
        | Inr ws \<Rightarrow> [\<lparr>msg_role = Server, msg_text = t\<rparr>. Str t \<leftarrow> inbound net ws])"
  proof (cases "open_ws net (server_url s)")
    case (Inl e)
    then show ?thesis by (simp add: connect_def connect_begin_def Let_def)
  next
    case (Inr ws)
    let ?r = "connect_register net ws (fst (connect_begin net reg s))"
    have "messages (state ?r) = []"
      by (simp add: connect_register_def connect_begin_def Let_def)
    then have "messages (state (receive_loop (inbound net ws) ?r)) =
          [\<lparr>msg_role = Server, msg_text = t\<rparr>. Str t \<leftarrow> inbound net ws]"
      by (simp add: receive_loop_messages)
    then show ?thesis
      using Inr by (simp add: connect_success [OF Inr] Let_def del_websocket_state)
  qed
qed

text \<open>
  C3 for the session \<open>used\<close>, which holds two messages of an earlier connection, is marked
  connected and has the id \<open>ws-0\<close>: the state at the attempt is the default one, and after
  the run on the echo server the log holds the two \<open>hello\<close> of the new connection only.
\<close>

theorem connect_resets_first_witness:
  "messages used \<noteq> [] \<and> connected used
   \<and> state (fst (connect_begin echo_net Map.empty used)) = State_default
   \<and> hd (effects (connect echo_net Map.empty used)) = Release State_default
   \<and> messages (state (connect echo_net Map.empty used)) =
       [\<lparr>msg_role = Server, msg_text = ''hello''\<rparr>, \<lparr>msg_role = Server, msg_text = ''hello''\<rparr>]"
proof -
  have u: "used\<lparr>messages := [], connected := False, websocket_id := ''''\<rparr> = State_default"
    by (simp add: used_def State_default_def)
  have o: "open_ws echo_net (server_url used) = Inr 1"
    by (simp add: echo_net_def used_def State_default_def)
  have i: "inbound echo_net 1 = [Str ''hello'', Bytes [0, 255], Str ''hello'']"
    by (simp add: echo_net_def)
  have t: "take 2 (effects (connect echo_net Map.empty used)) =
             [Release State_default, NetConnect (server_url used)]"
    using connect_resets_first [of echo_net Map.empty used] u by simp
  have h: "hd (effects (connect echo_net Map.empty used)) = Release State_default"
    using t by (cases "effects (connect echo_net Map.empty used)") (simp_all add: numeral_2_eq_2)
  have m: "messages used \<noteq> [] \<and> connected used"
    by (simp add: used_def)
  show ?thesis
    using connect_resets_first [of echo_net Map.empty used] u o i h m by simp
qed

section \<open>Sends that are not delivered\<close>

text \<open>
  Claim C4, as amended. \<^verbatim>\<open>send_message\<close> always clears the buffer and appends the user
  message, and never changes \<^verbatim>\<open>_WEBSOCKETS\<close>. When the lookup of the id finds no handle, it
  returns without an exception and without attempting a send. When the lookup finds a
  handle, the exception of a failing \<^verbatim>\<open>send\<close> is not caught: the handler leaves with it.
\<close>

theorem send_message_undelivered:
  "let s1 = s\<lparr>message_buffer := '''',
               messages := messages s @ [\<lparr>msg_role = User, msg_text = message_buffer s\<rparr>]\<rparr>;
       r = send_message net reg s
   in state r = s1 \<and> websockets r = reg \<and>
      (case reg (websocket_id s) of
         None \<Rightarrow> raised r = None \<and> effects r = [Yield s1, ScrollTo ''messages-end'', Release s1]
       | Some ws \<Rightarrow>
           raised r = (if send_ok net ws (message_buffer s) then None else Some ConnectionClosed))"
  by (simp add: send_message_def Let_def split: option.splits)

text \<open>C4 at a session that was never connected: the draft \<open>hello\<close> is logged, nothing is raised.\<close>

theorem send_message_undelivered_witness:
  "raised (send_message dead_net Map.empty drafting) = None
   \<and> messages (state (send_message dead_net Map.empty drafting))
       = [\<lparr>msg_role = User, msg_text = ''hello''\<rparr>]
   \<and> length (effects (send_message dead_net Map.empty drafting)) = 3"
  using send_message_undelivered [of drafting dead_net Map.empty]
  by (simp add: Let_def drafting_def State_default_def)

text \<open>
  C4 as stated fails where the registry still holds the handle of a connection that has
  been closed: \<^verbatim>\<open>send\<close> raises, and \<^verbatim>\<open>send_message\<close> leaves with that exception.
\<close>

theorem send_message_raises:
  "raised (send_message dead_net [''ws-1'' \<mapsto> 1]
             (drafting\<lparr>connected := True, websocket_id := ''ws-1''\<rparr>))
     = Some ConnectionClosed"
  by (simp add: send_message_def dead_net_def echo_net_def drafting_def State_default_def Let_def)

section \<open>Storing a handle under an id that is taken\<close>

text \<open>
  Claim C5, as amended. Line 45 is an item assignment: when the connection opens, its
  handle is stored under its id whatever the registry held there before, and nothing is
  raised by it. So the only exception a run with an opened connection can leave with is
  that of an abnormal closure, and at its end the id maps to nothing (normal closure) or
  to the new handle.
\<close>

theorem connect_stores_handle:
  assumes "open_ws net (server_url s) = Inr ws"
  shows "websockets (connect_register net ws (fst (connect_begin net reg s)))
           = reg(ws_id net ws \<mapsto> ws)
         \<and> raised (connect_register net ws (fst (connect_begin net reg s))) = None
         \<and> websockets (connect net reg s) =
             (if closes_ok net ws then reg(ws_id net ws := None) else reg(ws_id net ws \<mapsto> ws))
         \<and> raised (connect net reg s) =
             (if closes_ok net ws then None else Some ConnectionClosed)"
proof -
  let ?r = "connect_register net ws (fst (connect_begin net reg s))"
  have a: "websockets ?r = reg(ws_id net ws \<mapsto> ws)"
    by (simp add: connect_register_websockets connect_begin_def Let_def)
  have b: "raised ?r = None"
    by (simp add: connect_register_def connect_begin_def Let_def)
  have c: "websockets (receive_loop (inbound net ws) ?r) = reg(ws_id net ws \<mapsto> ws)"
    by (simp add: receive_loop_websockets a)
  have d: "raised (receive_loop (inbound net ws) ?r) = None"
    by (simp add: receive_loop_raised b)
  show ?thesis
    using a b c d by (simp add: connect_success [OF assms] Let_def del_websocket_def)
qed

text \<open>C5 where the id \<open>ws-1\<close> is taken by connection 1 and connection 2 reports it too.\<close>

theorem connect_stores_handle_witness:
  "websockets (connect_register twin_net 2 (fst (connect_begin twin_net [''ws-1'' \<mapsto> 1] used)))
     = [''ws-1'' \<mapsto> 2]
   \<and> raised (connect twin_net [''ws-1'' \<mapsto> 1] used) = None"
proof -
  have h: "open_ws twin_net (server_url used) = Inr 2"
    by (simp add: twin_net_def)
  show ?thesis
    using connect_stores_handle [OF h, of "[''ws-1'' \<mapsto> 1]"]
    by (simp add: twin_net_def echo_net_def)
qed

text \<open>
  C5 as stated fails there: with \<open>ws-1\<close> a key already, the store raises nothing and
  replaces handle 1 by handle 2; the whole run returns normally and has removed the key.
\<close>

theorem connect_duplicate_id_overwrites:
  "websockets (connect_register twin_net 2
                 (fst (connect_begin twin_net [''ws-1'' \<mapsto> 1] State_default))) ''ws-1'' = Some 2
   \<and> raised (connect_register twin_net 2
                 (fst (connect_begin twin_net [''ws-1'' \<mapsto> 1] State_default))) = None
   \<and> raised (connect twin_net [''ws-1'' \<mapsto> 1] State_default) = None
   \<and> websockets (connect twin_net [''ws-1'' \<mapsto> 1] State_default) ''ws-1'' = None"
  by (simp add: connect_def connect_begin_def connect_register_def del_websocket_def
      on_message_def twin_net_def echo_net_def State_default_def Let_def)

section \<open>Inbound messages\<close>

text \<open>
  Claim C6: the server messages of the log are the text messages received, in the order of
  receipt, each once. For the loop: at every split of the inbound sequence into what has
  been received (\<open>fs\<close>) and what follows (\<open>gs\<close>), the log after \<open>fs @ gs\<close> is the log after
  \<open>fs\<close> with the text messages of \<open>gs\<close> appended in order, so the loop only ever appends;
  whatever the log held before (user messages too), its server entries after the loop are
  those it had, followed by the text messages received.
  For \<^verbatim>\<open>connect\<close> as a whole, whose first block empties the log: when the connection opens,
  the log it leaves is exactly the text messages the connection yielded, in order, however
  the connection closes.
\<close>

theorem server_messages_in_receipt_order:
  "messages (state (receive_loop (fs @ gs) r)) =
     messages (state (receive_loop fs r)) @ [\<lparr>msg_role = Server, msg_text = t\<rparr>. Str t \<leftarrow> gs]
   \<and> filter (\<lambda>m. msg_role m = Server) (messages (state (receive_loop fs r))) =
       filter (\<lambda>m. msg_role m = Server) (messages (state r))
         @ [\<lparr>msg_role = Server, msg_text = t\<rparr>. Str t \<leftarrow> fs]
   \<and> (open_ws net (server_url s) = Inr ws \<longrightarrow>
        messages (state (connect net reg s)) =
          [\<lparr>msg_role = Server, msg_text = t\<rparr>. Str t \<leftarrow> inbound net ws])"
proof (intro conjI impI)
  show "messages (state (receive_loop (fs @ gs) r)) =
     messages (state (receive_loop fs r)) @ [\<lparr>msg_role = Server, msg_text = t\<rparr>. Str t \<leftarrow> gs]"
    by (simp only: receive_loop_append receive_loop_messages)
next
  show "filter (\<lambda>m. msg_role m = Server) (messages (state (receive_loop fs r))) =
       filter (\<lambda>m. msg_role m = Server) (messages (state r))
         @ [\<lparr>msg_role = Server, msg_text = t\<rparr>. Str t \<leftarrow> fs]"
    by (simp only: receive_loop_messages filter_append server_messages_all_server)
next
  assume h: "open_ws net (server_url s) = Inr ws"
  let ?r = "connect_register net ws (fst (connect_begin net reg s))"
  have "messages (state ?r) = []"
    by (simp add: connect_register_def connect_begin_def Let_def)
  then have "messages (state (receive_loop (inbound net ws) ?r)) =
        [\<lparr>msg_role = Server, msg_text = t\<rparr>. Str t \<leftarrow> inbound net ws]"
    by (simp add: receive_loop_messages)
  then show "messages (state (connect net reg s)) =
        [\<lparr>msg_role = Server, msg_text = t\<rparr>. Str t \<leftarrow> inbound net ws]"
    by (simp add: connect_success [OF h] Let_def del_websocket_state)
qed

text \<open>
  C6 on the echo server, for a session that reconnects: the two \<open>hello\<close> of the server are
  the log, in order and both kept although they are equal.
\<close>

theorem server_messages_in_receipt_order_witness:
  "open_ws echo_net (server_url used) = Inr 1
   \<and> messages (state (connect echo_net Map.empty used)) =
       [\<lparr>msg_role = Server, msg_text = ''hello''\<rparr>, \<lparr>msg_role = Server, msg_text = ''hello''\<rparr>]"
proof -
  have h: "open_ws echo_net (server_url used) = Inr 1"
    by (simp add: echo_net_def used_def State_default_def)
  have "messages (state (connect echo_net Map.empty used)) =
          [\<lparr>msg_role = Server, msg_text = t\<rparr>. Str t \<leftarrow> inbound echo_net 1]"
    using server_messages_in_receipt_order
            [of "[Str ''hello'']" "[Bytes [0, 255], Str ''hello'']"
                "connect_register echo_net 1 (fst (connect_begin echo_net Map.empty used))"
                echo_net used 1 Map.empty] h
    by blast
  then show ?thesis using h by (simp add: echo_net_def)
qed

section \<open>A failed connect\<close>

text \<open>
  Claim C7, as amended. When the attempt to open the connection fails, \<^verbatim>\<open>connect\<close> leaves
  the session with \<^verbatim>\<open>connected\<close> false, \<^verbatim>\<open>messages\<close> empty and the id empty, leaves
  \<^verbatim>\<open>_WEBSOCKETS\<close> as it was, and has done nothing but the reset and the attempt (so no
  state with \<^verbatim>\<open>connected\<close> true was ever released); the exception of the attempt is not
  caught, the handler leaves with it.
\<close>

theorem connect_failure:
  assumes "open_ws net (server_url s) = Inl e"
  shows "state (connect net reg s) = s\<lparr>messages := [], connected := False, websocket_id := ''''\<rparr>
         \<and> websockets (connect net reg s) = reg
         \<and> effects (connect net reg s) =
             [Release (s\<lparr>messages := [], connected := False, websocket_id := ''''\<rparr>),
              NetConnect (server_url s)]
         \<and> raised (connect net reg s) = Some e"
  using assms by (simp add: connect_def connect_begin_def Let_def)

text \<open>
  C7 for a session that was connected before and now names a URL that cannot be reached,
  while the registry holds the handle of some other session.
\<close>

theorem connect_failure_witness:
  "state (connect echo_net [''ws-0'' \<mapsto> 7] (used\<lparr>server_url := ''wss://nowhere''\<rparr>))
     = State_default\<lparr>server_url := ''wss://nowhere''\<rparr>
   \<and> websockets (connect echo_net [''ws-0'' \<mapsto> 7] (used\<lparr>server_url := ''wss://nowhere''\<rparr>))
     = [''ws-0'' \<mapsto> 7]"
proof -
  have h: "open_ws echo_net (server_url (used\<lparr>server_url := ''wss://nowhere''\<rparr>)) = Inl ConnectError"
    by (simp add: echo_net_def)
  show ?thesis
    using connect_failure [OF h, of "[''ws-0'' \<mapsto> 7]"]
    by (simp add: used_def State_default_def)
qed

text \<open>
  C7 as stated fails in its last part: on a URL that cannot be reached the handler does
  not return, it leaves with the exception of the attempt.
\<close>

theorem connect_failure_raises:
  "raised (connect echo_net Map.empty (State_default\<lparr>server_url := ''wss://nowhere''\<rparr>))
     = Some ConnectError"
  by (simp add: connect_def connect_begin_def echo_net_def State_default_def Let_def)

section \<open>Text and binary frames\<close>

text \<open>
  Claim C8: the loop body changes the log exactly when the message is a \<^verbatim>\<open>str\<close>, and then
  by appending one server message with that text; on a \<^verbatim>\<open>bytes\<close> message it changes
  nothing at all. So the relay appends one server message for every text message received
  and none for a binary one: the log after the loop is the log before it followed by the
  text messages of the inbound sequence, and the whole run is the run on the inbound
  sequence with the binary messages taken out.
\<close>

theorem on_message_text_only:
  "(messages (state (on_message f r)) \<noteq> messages (state r)) = (\<exists>t. f = Str t)
   \<and> messages (state (on_message (Str t) r)) =
       messages (state r) @ [\<lparr>msg_role = Server, msg_text = t\<rparr>]
   \<and> on_message (Bytes b) r = r
   \<and> receive_loop fs r =
       receive_loop (filter (\<lambda>f. case f of Str t \<Rightarrow> True | Bytes b \<Rightarrow> False) fs) r
   \<and> messages (state (receive_loop fs r)) =
       messages (state r) @ [\<lparr>msg_role = Server, msg_text = t\<rparr>. Str t \<leftarrow> fs]
   \<and> length (messages (state (receive_loop fs r))) =
       length (messages (state r))
         + length (filter (\<lambda>f. case f of Str t \<Rightarrow> True | Bytes b \<Rightarrow> False) fs)"
proof -
  have a: "(messages (state (on_message f r)) \<noteq> messages (state r)) = (\<exists>t. f = Str t)"
    by (cases f) (simp_all add: on_message_def Let_def)
  have b: "messages (state (on_message (Str t) r)) =
       messages (state r) @ [\<lparr>msg_role = Server, msg_text = t\<rparr>]"
    by (simp add: on_message_def Let_def)
  have c: "on_message (Bytes b) r = r"
    by (simp add: on_message_def)
  have d: "messages (state (receive_loop fs r)) =
       messages (state r) @ [\<lparr>msg_role = Server, msg_text = t\<rparr>. Str t \<leftarrow> fs]"
    by (rule receive_loop_messages)
  have e: "length (messages (state (receive_loop fs r))) =
       length (messages (state r))
         + length (filter (\<lambda>f. case f of Str t \<Rightarrow> True | Bytes b \<Rightarrow> False) fs)"
    by (simp only: d length_append server_messages_length)
  show ?thesis using a b c d e receive_loop_drops_bytes by blast
qed

text \<open>
  C8 on the inbound sequence text, binary, text, for the session \<open>used\<close> with its two
  earlier messages: two server messages are appended, none for the binary frame.
\<close>

theorem on_message_text_only_witness:
  "messages (state (receive_loop [Str ''hello'', Bytes [0, 255], Str ''bye'']
       (\<lparr>state = used, websockets = Map.empty, effects = [], raised = None\<rparr> :: nat Run))) =
     messages used
       @ [\<lparr>msg_role = Server, msg_text = ''hello''\<rparr>, \<lparr>msg_role = Server, msg_text = ''bye''\<rparr>]
   \<and> on_message (Bytes [0, 255])
       (\<lparr>state = used, websockets = Map.empty, effects = [], raised = None\<rparr> :: nat Run)
     = \<lparr>state = used, websockets = Map.empty, effects = [], raised = None\<rparr>"
proof -
  let ?r = "\<lparr>state = used, websockets = Map.empty, effects = ([] :: nat effect list), raised = None\<rparr>"
  let ?fs = "[Str ''hello'', Bytes [0, 255], Str ''bye'']"
  have a: "messages (state (receive_loop ?fs ?r)) =
             messages (state ?r) @ [\<lparr>msg_role = Server, msg_text = t\<rparr>. Str t \<leftarrow> ?fs]"
    using on_message_text_only [of "Bytes [0, 255]" ?r "''hello''" "[0, 255]" ?fs] by blast
  have b: "on_message (Bytes [0, 255]) ?r = ?r"
    using on_message_text_only [of "Bytes [0, 255]" ?r "''hello''" "[0, 255]" ?fs] by blast
  have c: "messages (state ?r) @ [\<lparr>msg_role = Server, msg_text = t\<rparr>. Str t \<leftarrow> ?fs] =
             messages used
               @ [\<lparr>msg_role = Server, msg_text = ''hello''\<rparr>, \<lparr>msg_role = Server, msg_text = ''bye''\<rparr>]"
    by simp
  from a c have "messages (state (receive_loop ?fs ?r)) =
             messages used
               @ [\<lparr>msg_role = Server, msg_text = ''hello''\<rparr>, \<lparr>msg_role = Server, msg_text = ''bye''\<rparr>]"
    by (rule trans)
  then show ?thesis using b by (rule conjI)
qed

section \<open>Page load\<close>

text \<open>
  Claim C9: \<^verbatim>\<open>on_load\<close> makes \<^verbatim>\<open>connected\<close> true exactly when the stored id is not empty and
  is a key of \<^verbatim>\<open>_WEBSOCKETS\<close>, and changes no other field.
\<close>

theorem on_load_reconciles:
  "connected (on_load reg s) = (websocket_id s \<noteq> '''' \<and> websocket_id s \<in> dom reg)
   \<and> server_url (on_load reg s) = server_url s
   \<and> message_buffer (on_load reg s) = message_buffer s
   \<and> messages (on_load reg s) = messages s
   \<and> websocket_id (on_load reg s) = websocket_id s"
  by (auto simp add: on_load_def)

section \<open>What send_message sends\<close>

text \<open>
  Claim C10: for every session state, registry and network, \<^verbatim>\<open>send_message\<close> appends a user
  message whose text is the buffer as it was, empties the buffer, and offers exactly that
  text to the handle the lookup finds (and attempts no send when it finds none). Neither
  an empty buffer nor \<^verbatim>\<open>connected = False\<close> changes that.
\<close>

theorem send_message_sends_buffer:
  "messages (state (send_message net reg s)) =
     messages s @ [\<lparr>msg_role = User, msg_text = message_buffer s\<rparr>]
   \<and> message_buffer (state (send_message net reg s)) = ''''
   \<and> filter (\<lambda>e. case e of NetSend c m \<Rightarrow> True | _ \<Rightarrow> False) (effects (send_message net reg s)) =
       (case reg (websocket_id s) of None \<Rightarrow> [] | Some ws \<Rightarrow> [NetSend ws (message_buffer s)])"
  by (simp add: send_message_def Let_def split: option.splits)

text \<open>
  C10 with an empty buffer and \<^verbatim>\<open>connected = False\<close>, the id being a key of the registry:
  a user message with the empty text is logged and the empty string is sent.
\<close>

theorem send_message_sends_buffer_witness:
  "\<not> connected (State_default\<lparr>websocket_id := ''ws-1''\<rparr>)
   \<and> messages (state (send_message echo_net [''ws-1'' \<mapsto> 1] (State_default\<lparr>websocket_id := ''ws-1''\<rparr>)))
     = [\<lparr>msg_role = User, msg_text = ''''\<rparr>]
   \<and> filter (\<lambda>e. case e of NetSend c m \<Rightarrow> True | _ \<Rightarrow> False)
        (effects (send_message echo_net [''ws-1'' \<mapsto> 1] (State_default\<lparr>websocket_id := ''ws-1''\<rparr>)))
     = [NetSend 1 '''']"
  using send_message_sends_buffer
          [of echo_net "[''ws-1'' \<mapsto> 1]" "State_default\<lparr>websocket_id := ''ws-1''\<rparr>"]
  by (simp add: State_default_def)

end
